theory Spec2Isabelle
  imports Complex_Main "HOL-Library.Word" "HOL-Library.Multiset"
begin

section \<open>Text-annotation overlay of the prompt optimiser front end\<close>

text \<open>
  Two React components render an optimised prompt and let the user attach comments to
  selected substrings:
  \<^item> \<^verbatim>\<open>unnamed/part_000\<close>, the \<^verbatim>\<open>OptimizedPrompt\<close> component that
    \<^verbatim>\<open>PromptOptimizer.jsx\<close> imports (\<^verbatim>\<open>handleSelection\<close>, \<^verbatim>\<open>handleCommentSubmit\<close>,
    \<^verbatim>\<open>renderTextWithHighlights\<close>, with the \<^verbatim>\<open>CommentBox\<close> editor);
  \<^item> \<^verbatim>\<open>frontend/components/OptimizedPrompt.js\<close>, an older component of the same name
    (\<^verbatim>\<open>handleTextSelection\<close>, \<^verbatim>\<open>handleSaveComment\<close>, \<^verbatim>\<open>renderTextWithComments\<close>, with the
    \<^verbatim>\<open>CommentPopover\<close> editor).
  Both are embedded below. Component state set through \<^verbatim>\<open>useState\<close> is a record that each
  handler returns updated; an exception is a value of \<open>js_exn\<close>; what the browser and the
  server supply (the live selection, the reply to the POST, the clock) is an argument.
\<close>

subsection \<open>Strings\<close>

text \<open>
  A JavaScript string is a sequence of UTF-16 code units; \<^verbatim>\<open>length\<close>, \<^verbatim>\<open>slice\<close> and the
  offsets of a DOM range all count code units. \<open>utf16\<close> writes an ASCII literal as such
  a sequence.
\<close>

type_synonym code_unit = "16 word"
type_synonym js_string = "code_unit list"

definition utf16 :: "string \<Rightarrow> js_string" where
  "utf16 s = map of_char s"

text \<open>
  \<^verbatim>\<open>String.prototype.slice(start, end)\<close> and \<^verbatim>\<open>slice(start)\<close> for non-negative integer
  arguments, as ECMAScript defines them: both bounds are clamped to the length, and an end
  before the start gives the empty string.
\<close>

definition js_slice :: "js_string \<Rightarrow> nat \<Rightarrow> nat \<Rightarrow> js_string" where
  "js_slice s start end =
     (let len = length s; from = min start len; to = min end len
      in take (max (to - from) 0) (drop from s))"

definition js_slice_from :: "js_string \<Rightarrow> nat \<Rightarrow> js_string" where
  "js_slice_from s start = js_slice s start (length s)"

text \<open>
  \<^verbatim>\<open>String.prototype.trim\<close> removes leading and trailing WhiteSpace and LineTerminator code
  points (ECMAScript: TAB, VT, FF, SP, NBSP, ZWNBSP, the Unicode space separators, LF, CR,
  LS, PS), all of which are single code units.
\<close>

definition is_js_whitespace :: "code_unit \<Rightarrow> bool" where
  "is_js_whitespace c =
     (c \<in> {0x0009, 0x000A, 0x000B, 0x000C, 0x000D, 0x0020, 0x00A0, 0x1680,
            0x2028, 0x2029, 0x202F, 0x205F, 0x3000, 0xFEFF}
      \<or> (0x2000 \<le> c \<and> c \<le> 0x200A))"

definition js_trim :: "js_string \<Rightarrow> js_string" where
  "js_trim s = rev (dropWhile is_js_whitespace (rev (dropWhile is_js_whitespace s)))"

subsection \<open>Exceptions and effects\<close>

datatype js_exn =
    TypeError                 \<comment> \<open>a property read on null/undefined, or a call of a non-function\<close>
  | IndexSizeError            \<comment> \<open>\<^verbatim>\<open>getRangeAt(0)\<close> on a selection without ranges\<close>
  | Error js_string           \<comment> \<open>\<^verbatim>\<open>new Error(message)\<close>\<close>
  | Rejection                 \<comment> \<open>\<^verbatim>\<open>fetch\<close> or \<^verbatim>\<open>response.json()\<close> rejected\<close>

datatype effect =
    Alert js_exn              \<comment> \<open>\<^verbatim>\<open>alert('Failed to save feedback: ' + error.message)\<close>\<close>
  | RemoveAllRanges           \<comment> \<open>\<^verbatim>\<open>window.getSelection().removeAllRanges()\<close>\<close>

subsection \<open>Data\<close>

text \<open>
  The object \<^verbatim>\<open>{text, startOffset, endOffset}\<close> that both selection handlers store; the older
  component's comment \<^verbatim>\<open>{...selectedText, comment, id}\<close>; and the comment of part_000, which
  has \<^verbatim>\<open>created_at\<close> as well. (\<open>text'\<close> and \<open>id'\<close> are the fields \<^verbatim>\<open>text\<close> and \<^verbatim>\<open>id\<close>; the id is
  an opaque token, a number here.)
\<close>

record selected_range =
  text' :: js_string
  startOffset :: nat
  endOffset :: nat

record saved_comment = selected_range +
  comment :: js_string
  id' :: nat

record comment = saved_comment +
  created_at :: js_string

text \<open>
  What the browser reports for the live selection. A boundary point of a DOM range is a
  container node and an offset \<^emph>\<open>inside that container\<close>; the containers are numbered here
  by the position of the text node among the text nodes of the rendered view, in document
  order. \<open>sel_range = None\<close> is a selection with no range, on which \<^verbatim>\<open>getRangeAt(0)\<close> throws.
\<close>

record dom_rect =
  rect_left :: real
  rect_top :: real
  rect_right :: real
  rect_bottom :: real

record dom_range =
  range_startContainer :: nat
  range_startOffset :: nat
  range_endContainer :: nat
  range_endOffset :: nat
  boundingClientRect :: dom_rect

record dom_selection =
  sel_toString :: js_string
  sel_range :: "dom_range option"

subsection \<open>part_000: state and selection capture\<close>

text \<open>
  The state that the handlers of \<^verbatim>\<open>OptimizedPrompt\<close> in part_000 read and write: \<open>comments\<close>
  is the prop owned by \<^verbatim>\<open>PromptOptimizer\<close>, and \<open>effects\<close> logs alerts and selection clearing
  in the order they happen (the \<^verbatim>\<open>console\<close> calls are left out). The hover tooltip state is
  written by no handler below. The text typed into the \<^verbatim>\<open>CommentBox\<close> is state of that
  component, not of this one.
\<close>

record view_state =
  comments :: "comment list"
  showCommentBox :: bool
  commentPosition :: "real \<times> real"
  selectedRange :: "selected_range option"
  effects :: "effect list"

definition handleSelection :: "view_state \<Rightarrow> dom_selection \<Rightarrow> js_exn + view_state" where
  "handleSelection st selection =
     (let selectedText = js_trim (sel_toString selection)
      in if selectedText = [] then Inr (st\<lparr>showCommentBox := False\<rparr>)
         else case sel_range selection of
                None \<Rightarrow> Inl IndexSizeError
              | Some rng \<Rightarrow>
                  (let rect = boundingClientRect rng;
                       x = rect_right rect;
                       y = rect_top rect
                   in Inr (st\<lparr>commentPosition := (x, y),
                              selectedRange := Some \<lparr>text' = selectedText,
                                                     startOffset = range_startOffset rng,
                                                     endOffset = range_endOffset rng\<rparr>,
                              showCommentBox := True\<rparr>)))"

subsection \<open>OptimizedPrompt.js: state and selection capture\<close>

record legacy_state =
  legacy_comments :: "saved_comment list"
  selectedText :: "selected_range option"
  showCommentPopover :: bool
  popoverPosition :: "real \<times> real"

text \<open>
  \<open>containerRect\<close> is \<^verbatim>\<open>containerRef.current.getBoundingClientRect()\<close>, \<open>None\<close> when the ref
  is not attached.
\<close>

definition handleTextSelection ::
  "legacy_state \<Rightarrow> dom_selection \<Rightarrow> dom_rect option \<Rightarrow> js_exn + legacy_state" where
  "handleTextSelection st selection containerRect =
     (if length (sel_toString selection) > 0 then
        (case sel_range selection of
           None \<Rightarrow> Inl IndexSizeError
         | Some rng \<Rightarrow>
             (case containerRect of
                None \<Rightarrow> Inl TypeError
              | Some crect \<Rightarrow>
                  (let rect = boundingClientRect rng
                   in Inr (st\<lparr>selectedText := Some \<lparr>text' = sel_toString selection,
                                                    startOffset = range_startOffset rng,
                                                    endOffset = range_endOffset rng\<rparr>,
                              popoverPosition := (rect_left rect - rect_left crect,
                                                  rect_bottom rect - rect_top crect + 10),
                              showCommentPopover := True\<rparr>))))
      else Inr st)"

text \<open>The values that \<^verbatim>\<open>useState\<close> gives the two components when they mount.\<close>

definition initial_view_state :: view_state where
  "initial_view_state =
     \<lparr>comments = [], showCommentBox = False, commentPosition = (0, 0),
      selectedRange = None, effects = []\<rparr>"

definition initial_legacy_state :: legacy_state where
  "initial_legacy_state =
     \<lparr>legacy_comments = [], selectedText = None, showCommentPopover = False,
      popoverPosition = (0, 0)\<rparr>"

subsection \<open>Sorting\<close>

text \<open>
  \<^verbatim>\<open>Array.prototype.sort(compare)\<close> is stable, so with a consistent comparator its result
  is the one of a stable insertion sort: an element goes before the first element that
  it does not compare greater than, and the elements are inserted from the last one back.
  The two comparators are \<^verbatim>\<open>(a, b) => a.startOffset - b.startOffset\<close> of part_000 and
  \<^verbatim>\<open>(a, b) => b.startOffset - a.startOffset\<close> of the older component.
\<close>

fun insert_by :: "('a \<Rightarrow> 'a \<Rightarrow> int) \<Rightarrow> 'a \<Rightarrow> 'a list \<Rightarrow> 'a list" where
  "insert_by compare x [] = [x]"
| "insert_by compare x (y # ys) =
     (if compare x y \<le> 0 then x # y # ys else y # insert_by compare x ys)"

definition js_sort :: "('a \<Rightarrow> 'a \<Rightarrow> int) \<Rightarrow> 'a list \<Rightarrow> 'a list" where
  "js_sort compare xs = foldr (insert_by compare) xs []"

definition compare_ascending ::
  "'a selected_range_scheme \<Rightarrow> 'a selected_range_scheme \<Rightarrow> int" where
  "compare_ascending a b = int (startOffset a) - int (startOffset b)"

definition compare_descending ::
  "'a selected_range_scheme \<Rightarrow> 'a selected_range_scheme \<Rightarrow> int" where
  "compare_descending a b = int (startOffset b) - int (startOffset a)"

subsection \<open>part_000: the renderer\<close>

text \<open>
  \<^verbatim>\<open>renderTextWithHighlights\<close> returns the string itself when there are no comments, and
  otherwise an array of \<^verbatim>\<open>span\<close> elements: plain ones with key \<^verbatim>\<open>text-<index>\<close> or
  \<^verbatim>\<open>text-end\<close>, and highlighted ones with the comment's id as key, the slice of the text as
  child and the comment's text in the hover handler.
\<close>

datatype span_key = TextKey nat | TextEnd

datatype span =
    PlainSpan span_key js_string
  | HighlightSpan nat js_string js_string

datatype rendered = RawText js_string | Pieces "span list"

fun forEach :: "('s \<Rightarrow> 'a \<Rightarrow> nat \<Rightarrow> 's) \<Rightarrow> 'a list \<Rightarrow> nat \<Rightarrow> 's \<Rightarrow> 's" where
  "forEach callback [] index s = s"
| "forEach callback (x # xs) index s = forEach callback xs (Suc index) (callback s x index)"

text \<open>The body of the \<^verbatim>\<open>forEach\<close> callback, on the variables \<^verbatim>\<open>lastIndex\<close> and \<^verbatim>\<open>pieces\<close>.\<close>

definition highlight_step ::
  "js_string \<Rightarrow> nat \<times> span list \<Rightarrow> comment \<Rightarrow> nat \<Rightarrow> nat \<times> span list" where
  "highlight_step optimizedText s c index =
     (let lastIndex = fst s;
          pieces = snd s;
          pieces1 = (if startOffset c > lastIndex
                     then pieces @ [PlainSpan (TextKey index)
                                      (js_slice optimizedText lastIndex (startOffset c))]
                     else pieces);
          pieces2 = pieces1 @ [HighlightSpan (id' c)
                                 (js_slice optimizedText (startOffset c) (endOffset c))
                                 (comment c)]
      in (endOffset c, pieces2))"

definition renderTextWithHighlights :: "js_string \<Rightarrow> comment list \<Rightarrow> rendered" where
  "renderTextWithHighlights optimizedText cs =
     (if length cs = 0 then RawText optimizedText
      else
        (let sortedComments = js_sort compare_ascending cs;
             s = forEach (highlight_step optimizedText) sortedComments 0 (0, []);
             lastIndex = fst s;
             pieces = snd s
         in if lastIndex < length optimizedText
            then Pieces (pieces @ [PlainSpan TextEnd (js_slice_from optimizedText lastIndex)])
            else Pieces pieces))"

subsection \<open>part_000: submitting a comment\<close>

text \<open>
  The outcome of \<^verbatim>\<open>await fetch(...)\<close> followed by \<^verbatim>\<open>await response.json()\<close>: either one of
  the two rejects, or there is \<^verbatim>\<open>response.ok\<close> and the parsed body, of which the handler
  reads \<^verbatim>\<open>success\<close>, \<^verbatim>\<open>error\<close> (\<open>None\<close> when absent) and \<^verbatim>\<open>comment.id\<close> (\<open>None\<close> when the
  body has no \<^verbatim>\<open>comment\<close>, so that reading its id throws).
\<close>

record response_data =
  data_success :: bool
  data_error :: "js_string option"
  data_comment_id :: "nat option"

datatype fetch_result = Rejected | Response bool response_data

definition error_or_default :: "js_string option \<Rightarrow> js_string" where
  "error_or_default e =
     (case e of
        None \<Rightarrow> utf16 ''Failed to save feedback''
      | Some m \<Rightarrow> if m = [] then utf16 ''Failed to save feedback'' else m)"

text \<open>
  The \<^verbatim>\<open>try\<close> block of \<^verbatim>\<open>handleCommentSubmit\<close>; \<open>now\<close> is \<^verbatim>\<open>new Date().toISOString()\<close>. With
  \<^verbatim>\<open>selectedRange\<close> null the first read of \<^verbatim>\<open>selectedRange.text\<close> throws, before the request.
\<close>

definition submit_try ::
  "view_state \<Rightarrow> js_string \<Rightarrow> fetch_result \<Rightarrow> js_string \<Rightarrow> js_exn + view_state" where
  "submit_try st commentText result now =
     (case selectedRange st of
        None \<Rightarrow> Inl TypeError
      | Some sel \<Rightarrow>
          (case result of
             Rejected \<Rightarrow> Inl Rejection
           | Response ok data \<Rightarrow>
               if \<not> ok then Inl (Error (error_or_default (data_error data)))
               else if data_success data then
                 (case data_comment_id data of
                    None \<Rightarrow> Inl TypeError
                  | Some i \<Rightarrow>
                      (let newComment = \<lparr>text' = text' sel,
                                          startOffset = startOffset sel,
                                          endOffset = endOffset sel,
                                          comment = commentText,
                                          id' = i,
                                          created_at = now\<rparr>
                       in Inr (st\<lparr>comments := comments st @ [newComment]\<rparr>)))
               else Inr st))"

definition handleCommentSubmit ::
  "view_state \<Rightarrow> js_string \<Rightarrow> fetch_result \<Rightarrow> js_string \<Rightarrow> view_state" where
  "handleCommentSubmit st commentText result now =
     (let st1 = (case submit_try st commentText result now of
                   Inl e \<Rightarrow> st\<lparr>effects := effects st @ [Alert e]\<rparr>
                 | Inr st' \<Rightarrow> st')
      in st1\<lparr>showCommentBox := False, effects := effects st1 @ [RemoveAllRanges]\<rparr>)"

text \<open>
  The \<^verbatim>\<open>CommentBox\<close> is rendered exactly while \<^verbatim>\<open>showCommentBox\<close> is true. Its own state, the
  typed \<^verbatim>\<open>comment\<close>, starts as the empty string when the box is mounted and is lost when it
  is unmounted. \<open>Some text\<close> is the text of a mounted box and \<open>None\<close> means that no box is
  mounted; \<open>remount\<close> gives the box after a render with the state \<open>st\<close>.
\<close>

definition remount :: "view_state \<Rightarrow> js_string option \<Rightarrow> js_string option" where
  "remount st box =
     (if showCommentBox st
      then (case box of None \<Rightarrow> Some [] | Some typed \<Rightarrow> Some typed)
      else None)"


subsection \<open>OptimizedPrompt.js: saving a comment and rendering\<close>

text \<open>\<open>now\<close> is \<^verbatim>\<open>Date.now()\<close>.\<close>

definition handleSaveComment :: "legacy_state \<Rightarrow> js_string \<Rightarrow> nat \<Rightarrow> legacy_state" where
  "handleSaveComment st commentText now =
     (let st1 = (case selectedText st of
                   Some sel \<Rightarrow>
                     st\<lparr>legacy_comments := legacy_comments st @
                          [\<lparr>text' = text' sel, startOffset = startOffset sel,
                            endOffset = endOffset sel, comment = commentText, id' = now\<rparr>]\<rparr>
                 | None \<Rightarrow> st)
      in st1\<lparr>selectedText := None\<rparr>)"


text \<open>
  \<^verbatim>\<open>renderTextWithComments\<close> starts from the string and, for each comment in descending order
  of \<^verbatim>\<open>startOffset\<close>, replaces \<^verbatim>\<open>result\<close> by a fragment of \<^verbatim>\<open>result.slice(0, start)\<close>, a
  highlighted span holding \<^verbatim>\<open>result.slice(start, end)\<close> and the tooltip with the comment, and
  \<^verbatim>\<open>result.slice(end)\<close>. After the first comment \<^verbatim>\<open>result\<close> is a React element, which has no
  \<^verbatim>\<open>slice\<close>: the call throws a TypeError.
\<close>

datatype legacy_node =
    LText js_string
  | LFragment js_string js_string js_string js_string

definition wrap_comment :: "saved_comment \<Rightarrow> legacy_node \<Rightarrow> js_exn + legacy_node" where
  "wrap_comment c result =
     (case result of
        LText s \<Rightarrow>
          (let before = js_slice s 0 (startOffset c);
               highlighted = js_slice s (startOffset c) (endOffset c);
               after = js_slice_from s (endOffset c)
           in Inr (LFragment before highlighted (comment c) after))
      | LFragment _ _ _ _ \<Rightarrow> Inl TypeError)"

fun wrap_all :: "saved_comment list \<Rightarrow> legacy_node \<Rightarrow> js_exn + legacy_node" where
  "wrap_all [] result = Inr result"
| "wrap_all (c # cs) result =
     (case wrap_comment c result of
        Inl e \<Rightarrow> Inl e
      | Inr result' \<Rightarrow> wrap_all cs result')"

definition renderTextWithComments ::
  "js_string \<Rightarrow> saved_comment list \<Rightarrow> js_exn + legacy_node" where
  "renderTextWithComments optimizedText cs =
     (let sortedComments = js_sort compare_descending cs
      in wrap_all sortedComments (LText optimizedText))"

subsection \<open>The specification's vocabulary\<close>

text \<open>
  The renderer's output as the segment sequence of the specification: a plain span is a
  Plain segment, a highlighted span a Highlighted segment tagged with its key, the
  annotation's id. A string returned as it is becomes one text node, and none when it is
  empty.
\<close>

datatype segment = Plain js_string | Highlighted js_string nat

fun segment_text :: "segment \<Rightarrow> js_string" where
  "segment_text (Plain t) = t"
| "segment_text (Highlighted t tag) = t"

fun segment_of_span :: "span \<Rightarrow> segment" where
  "segment_of_span (PlainSpan k t) = Plain t"
| "segment_of_span (HighlightSpan i t hover) = Highlighted t i"

fun segments_of :: "rendered \<Rightarrow> segment list" where
  "segments_of (RawText t) = (if t = [] then [] else [Plain t])"
| "segments_of (Pieces ps) = map segment_of_span ps"

text \<open>
  The reference scan, written from the words of the specification (4.3): a cursor that
  starts at 0; for each annotation in the order given, a Plain segment for
  \<open>sourceText[cursor:startOffset]\<close> if \<open>startOffset > cursor\<close>, a Highlighted segment for
  \<open>sourceText[startOffset:endOffset]\<close> tagged with the id, and the cursor moved to
  \<open>endOffset\<close>; at the end a Plain segment for the remainder if
  \<open>cursor < length sourceText\<close>.
\<close>

definition substring :: "js_string \<Rightarrow> nat \<Rightarrow> nat \<Rightarrow> js_string" where
  "substring s i j = take (j - i) (drop i s)"

fun reference_scan :: "js_string \<Rightarrow> nat \<Rightarrow> 'a saved_comment_scheme list \<Rightarrow> segment list" where
  "reference_scan sourceText cursor [] =
     (if cursor < length sourceText
      then [Plain (substring sourceText cursor (length sourceText))] else [])"
| "reference_scan sourceText cursor (a # as) =
     (if startOffset a > cursor
      then [Plain (substring sourceText cursor (startOffset a))] else [])
     @ [Highlighted (substring sourceText (startOffset a) (endOffset a)) (id' a)]
     @ reference_scan sourceText (endOffset a) as"

definition reference_render :: "js_string \<Rightarrow> 'a saved_comment_scheme list \<Rightarrow> segment list" where
  "reference_render sourceText annotations = reference_scan sourceText 0 annotations"

text \<open>
  The data invariants of the specification (3): a range is in bounds when
  \<open>0 \<le> startOffset < endOffset \<le> length SourceText\<close>; two ranges intersect when each starts
  before the other ends (touching at a boundary is no intersection); an annotation list is
  non-overlapping when no entry intersects another entry.
\<close>

definition range_in_bounds :: "js_string \<Rightarrow> 'a selected_range_scheme \<Rightarrow> bool" where
  "range_in_bounds sourceText a =
     (startOffset a < endOffset a \<and> endOffset a \<le> length sourceText)"

definition ranges_intersect ::
  "'a selected_range_scheme \<Rightarrow> 'b selected_range_scheme \<Rightarrow> bool" where
  "ranges_intersect a b = (startOffset a < endOffset b \<and> startOffset b < endOffset a)"

definition non_overlapping :: "'a selected_range_scheme list \<Rightarrow> bool" where
  "non_overlapping as =
     list_all (\<lambda>a. list_all (\<lambda>b. \<not> ranges_intersect a b) (remove1 a as)) as"

definition valid_annotations :: "js_string \<Rightarrow> 'a selected_range_scheme list \<Rightarrow> bool" where
  "valid_annotations sourceText as =
     (list_all (range_in_bounds sourceText) as \<and> non_overlapping as)"

text \<open>
  The text nodes of a rendered view in document order (React makes no text node for an
  empty string), and the absolute offset that the specification (4.1) asks selection
  capture to compute for a boundary point: the lengths of the text nodes before the
  boundary's container, plus the offset inside the container. \<open>selected_text\<close> is the text
  between the two boundary points of a range, which the browser returns from
  \<^verbatim>\<open>selection.toString()\<close>.
\<close>

fun span_text :: "span \<Rightarrow> js_string" where
  "span_text (PlainSpan k t) = t"
| "span_text (HighlightSpan i t hover) = t"

fun text_nodes :: "rendered \<Rightarrow> js_string list" where
  "text_nodes (RawText t) = filter (\<lambda>t. t \<noteq> []) [t]"
| "text_nodes (Pieces ps) = filter (\<lambda>t. t \<noteq> []) (map span_text ps)"

fun legacy_text_nodes :: "legacy_node \<Rightarrow> js_string list" where
  "legacy_text_nodes (LText t) = filter (\<lambda>t. t \<noteq> []) [t]"
| "legacy_text_nodes (LFragment before highlighted tooltip after) =
     filter (\<lambda>t. t \<noteq> []) [before, highlighted, tooltip, after]"

definition absolute_offset :: "js_string list \<Rightarrow> nat \<Rightarrow> nat \<Rightarrow> nat" where
  "absolute_offset nodes container offset = length (concat (take container nodes)) + offset"

definition selected_text :: "js_string list \<Rightarrow> dom_range \<Rightarrow> js_string" where
  "selected_text nodes rng =
     substring (concat nodes)
       (absolute_offset nodes (range_startContainer rng) (range_startOffset rng))
       (absolute_offset nodes (range_endContainer rng) (range_endOffset rng))"



subsection \<open>Notions used in the proofs\<close>

text \<open>
  The segments that the last lines of \<^verbatim>\<open>renderTextWithHighlights\<close> make of the loop's final
  \<^verbatim>\<open>lastIndex\<close> and \<^verbatim>\<open>pieces\<close>; and a list of ranges that a cursor can walk through without
  ever stepping back.
\<close>

definition closing_segments :: "js_string \<Rightarrow> nat \<times> span list \<Rightarrow> segment list" where
  "closing_segments t s =
     map segment_of_span (snd s)
     @ (if fst s < length t then [Plain (js_slice_from t (fst s))] else [])"

fun chained :: "nat \<Rightarrow> 'a selected_range_scheme list \<Rightarrow> bool" where
  "chained cursor [] = True"
| "chained cursor (a # as) =
     (cursor \<le> startOffset a \<and> startOffset a \<le> endOffset a \<and> chained (endOffset a) as)"

subsection \<open>The scenarios of the specification\<close>

definition fox :: js_string where
  "fox = utf16 ''The quick brown fox''"

definition quick_saved :: saved_comment where
  "quick_saved = \<lparr>text' = utf16 ''quick'', startOffset = 4, endOffset = 9,
                   comment = utf16 ''adj'', id' = 1\<rparr>"

definition brown_saved :: saved_comment where
  "brown_saved = \<lparr>text' = utf16 ''brown'', startOffset = 10, endOffset = 15,
                   comment = utf16 ''color'', id' = 2\<rparr>"

definition quick :: comment where
  "quick = \<lparr>text' = utf16 ''quick'', startOffset = 4, endOffset = 9,
             comment = utf16 ''adj'', id' = 1,
             created_at = utf16 ''2025-01-01T00:00:00.000Z''\<rparr>"

definition brown :: comment where
  "brown = \<lparr>text' = utf16 ''brown'', startOffset = 10, endOffset = 15,
             comment = utf16 ''color'', id' = 2,
             created_at = utf16 ''2025-01-01T00:00:01.000Z''\<rparr>"

definition abcdefghij :: js_string where
  "abcdefghij = utf16 ''abcdefghij''"

definition cde_saved :: saved_comment where
  "cde_saved = \<lparr>text' = utf16 ''cde'', startOffset = 2, endOffset = 5,
                 comment = utf16 ''first'', id' = 1\<rparr>"

definition cde :: comment where
  "cde = \<lparr>text' = utf16 ''cde'', startOffset = 2, endOffset = 5,
           comment = utf16 ''first'', id' = 1,
           created_at = utf16 ''2025-01-01T00:00:00.000Z''\<rparr>"

definition fgh_saved :: saved_comment where
  "fgh_saved = \<lparr>text' = utf16 ''fgh'', startOffset = 5, endOffset = 8,
                 comment = utf16 ''second'', id' = 2\<rparr>"

text \<open>
  The selection of the rendered substring ``fgh'', which lies at the start of the text node
  with the given number, and a collapsed selection (a caret) inside the first text node.
\<close>

definition origin_rect :: dom_rect where
  "origin_rect = \<lparr>rect_left = 0, rect_top = 0, rect_right = 0, rect_bottom = 0\<rparr>"

definition fgh_range :: "nat \<Rightarrow> dom_range" where
  "fgh_range node =
     \<lparr>range_startContainer = node, range_startOffset = 0,
      range_endContainer = node, range_endOffset = 3,
      boundingClientRect = origin_rect\<rparr>"

definition fgh_selection :: "nat \<Rightarrow> dom_selection" where
  "fgh_selection node = \<lparr>sel_toString = utf16 ''fgh'', sel_range = Some (fgh_range node)\<rparr>"

definition collapsed_selection :: dom_selection where
  "collapsed_selection =
     \<lparr>sel_toString = [],
      sel_range = Some \<lparr>range_startContainer = 0, range_startOffset = 3,
                        range_endContainer = 0, range_endOffset = 3,
                        boundingClientRect = origin_rect\<rparr>\<rparr>"

text \<open>
  Candidates. The range \<open>[6,12)\<close> of the fox sentence, selected while nothing is annotated;
  it intersects the annotation of ``quick'' (scenario B). The word ``own'', selected in the
  text node `` brown fox'' while ``quick'' is annotated: the captured offsets 3 and 6,
  read as a range of the source text, intersect \<open>[4,9)\<close> as well. An empty range, captured
  from a selection that runs from offset 2 of the node ``quick'' to offset 2 of the node
  `` brown fox'' (the older component has the tooltip's node between the two). A range that starts at the length of the text, captured from a selection that
  runs from the end of the prompt's only text node into the page below it. Then a reply of
  the server that reports success with the id \<open>i\<close>, and one that refuses with a message.
\<close>

definition ick_br :: selected_range where
  "ick_br = \<lparr>text' = utf16 ''ick br'', startOffset = 6, endOffset = 12\<rparr>"

definition empty_range :: selected_range where
  "empty_range = \<lparr>text' = utf16 ''ick b'', startOffset = 2, endOffset = 2\<rparr>"

definition empty_range_selection :: "nat \<Rightarrow> dom_selection" where
  "empty_range_selection node =
     \<lparr>sel_toString = utf16 ''ick b'',
      sel_range = Some \<lparr>range_startContainer = 1, range_startOffset = 2,
                        range_endContainer = node, range_endOffset = 2,
                        boundingClientRect = origin_rect\<rparr>\<rparr>"

definition beyond_range :: selected_range where
  "beyond_range = \<lparr>text' = utf16 ''Score'', startOffset = 19, endOffset = 5\<rparr>"

definition own_range :: selected_range where
  "own_range = \<lparr>text' = utf16 ''own'', startOffset = 3, endOffset = 6\<rparr>"

definition own_selection :: "nat \<Rightarrow> dom_selection" where
  "own_selection node =
     \<lparr>sel_toString = utf16 ''own'',
      sel_range = Some \<lparr>range_startContainer = node, range_startOffset = 3,
                        range_endContainer = node, range_endOffset = 6,
                        boundingClientRect = origin_rect\<rparr>\<rparr>"

text \<open>
  With ``quick'' annotated, the fox sentence is rendered as the text nodes ``The '',
  ``quick'' and `` brown fox''. A selection from offset 3 of the first to offset 2 of the
  second covers `` qu''; its two offsets, read as a range of the source text, are inverted.
\<close>

definition straddling_range :: dom_range where
  "straddling_range =
     \<lparr>range_startContainer = 0, range_startOffset = 3,
      range_endContainer = 1, range_endOffset = 2,
      boundingClientRect = origin_rect\<rparr>"

definition straddling_selection :: dom_selection where
  "straddling_selection =
     \<lparr>sel_toString = utf16 '' qu'', sel_range = Some straddling_range\<rparr>"

text \<open>
  A selection of the blank between ``The'' and ``quick'' that ends at the start of the node
  ``quick'': its text is a single space, and its offsets 3 and 0 are inverted.
\<close>

definition blank_range :: dom_range where
  "blank_range =
     \<lparr>range_startContainer = 0, range_startOffset = 3,
      range_endContainer = 1, range_endOffset = 0,
      boundingClientRect = origin_rect\<rparr>"

definition blank_selection :: dom_selection where
  "blank_selection = \<lparr>sel_toString = utf16 '' '', sel_range = Some blank_range\<rparr>"

text \<open>
  Two comments on the same range: ``The'' is selected and commented, and then selected
  again inside its highlighted span, where the offsets are 0 and 3 once more.
\<close>

definition the_first :: comment where
  "the_first = \<lparr>text' = utf16 ''The'', startOffset = 0, endOffset = 3,
                 comment = utf16 ''article'', id' = 1,
                 created_at = utf16 ''2025-01-01T00:00:00.000Z''\<rparr>"

definition the_second :: comment where
  "the_second = \<lparr>text' = utf16 ''The'', startOffset = 0, endOffset = 3,
                  comment = utf16 ''capital'', id' = 2,
                  created_at = utf16 ''2025-01-01T00:00:01.000Z''\<rparr>"

definition success_reply :: "nat \<Rightarrow> fetch_result" where
  "success_reply i =
     Response True \<lparr>data_success = True, data_error = None, data_comment_id = Some i\<rparr>"

definition refusal_reply :: fetch_result where
  "refusal_reply =
     Response False \<lparr>data_success = False, data_error = Some (utf16 ''Invalid range''),
                     data_comment_id = None\<rparr>"

section \<open>Strings and sorting\<close>

lemmas scenario_defs = fox_def quick_def brown_def quick_saved_def brown_saved_def
  abcdefghij_def cde_def cde_saved_def fgh_saved_def origin_rect_def fgh_range_def
  fgh_selection_def collapsed_selection_def ick_br_def empty_range_def beyond_range_def
  own_range_def own_selection_def empty_range_selection_def blank_range_def
  blank_selection_def the_first_def the_second_def
  success_reply_def refusal_reply_def straddling_range_def straddling_selection_def
  utf16_def initial_view_state_def initial_legacy_state_def

lemmas render_defs = renderTextWithHighlights_def renderTextWithComments_def js_sort_def
  compare_ascending_def compare_descending_def highlight_step_def js_slice_def js_slice_from_def
  wrap_comment_def Let_def

lemma js_slice_substring: "js_slice s i j = substring s i j"
  by (simp add: js_slice_def substring_def Let_def min_def)

lemma js_slice_from_drop: "js_slice_from s i = drop i s"
  by (simp add: js_slice_from_def js_slice_substring substring_def)

lemma substring_append_drop: "i \<le> j \<Longrightarrow> substring t i j @ drop j t = drop i t"
proof -
  assume "i \<le> j"
  moreover have "take (j - i) (drop i t) @ drop (j - i) (drop i t) = drop i t"
    by (rule append_take_drop_id)
  ultimately show ?thesis by (simp add: substring_def)
qed

lemma insert_by_ascending: "insert_by compare_ascending x ys = insort_key startOffset x ys"
  by (induction ys) (simp_all add: compare_ascending_def)

lemma js_sort_ascending: "js_sort compare_ascending xs = sort_key startOffset xs"
  by (induction xs) (simp_all add: js_sort_def insert_by_ascending)

lemma js_sort_ascending_sorted:
  "sorted (map startOffset xs) \<Longrightarrow> js_sort compare_ascending xs = xs"
  by (simp add: js_sort_ascending sort_key_id_if_sorted)

section \<open>The renderer of part_000 and the reference scan\<close>

lemma highlight_step_pair:
  "highlight_step t (li, ps) c i =
     (endOffset c,
      ps @ (if startOffset c > li
            then [PlainSpan (TextKey i) (substring t li (startOffset c))] else [])
         @ [HighlightSpan (id' c) (substring t (startOffset c) (endOffset c)) (comment c)])"
  by (simp add: highlight_step_def Let_def js_slice_substring)

lemma forEach_highlight_step:
  "closing_segments t (forEach (highlight_step t) cs i (li, ps))
   = map segment_of_span ps @ reference_scan t li cs"
proof (induction cs arbitrary: i li ps)
  case Nil
  show ?case by (simp add: closing_segments_def js_slice_from_drop substring_def)
next
  case (Cons c cs)
  have "closing_segments t (forEach (highlight_step t) (c # cs) i (li, ps))
        = closing_segments t
            (forEach (highlight_step t) cs (Suc i) (highlight_step t (li, ps) c i))"
    by simp
  also have "\<dots> = map segment_of_span (snd (highlight_step t (li, ps) c i))
                    @ reference_scan t (endOffset c) cs"
    by (simp add: highlight_step_pair Cons.IH)
  also have "\<dots> = map segment_of_span ps @ reference_scan t li (c # cs)"
    by (simp add: highlight_step_pair)
  finally show ?case .
qed

text \<open>
  Whatever the comments are, the renderer of part_000 yields the reference scan of its own
  sorted copy of them.
\<close>

lemma renderTextWithHighlights_segments:
  "segments_of (renderTextWithHighlights t cs)
   = reference_render t (js_sort compare_ascending cs)"
proof (cases "cs = []")
  case True
  then show ?thesis
    by (simp add: renderTextWithHighlights_def reference_render_def js_sort_def substring_def)
next
  case False
  have "segments_of (renderTextWithHighlights t cs)
        = closing_segments t
            (forEach (highlight_step t) (js_sort compare_ascending cs) 0 (0, []))"
    using False by (simp add: renderTextWithHighlights_def closing_segments_def Let_def)
  then show ?thesis
    by (simp add: forEach_highlight_step reference_render_def)
qed

lemma renderTextWithHighlights_refines_reference:
  assumes "sorted (map startOffset cs)"
  shows "segments_of (renderTextWithHighlights t cs) = reference_render t cs"
  using assms by (simp add: renderTextWithHighlights_segments js_sort_ascending_sorted)

lemma reference_scan_concat:
  "chained cursor as \<Longrightarrow>
   concat (map segment_text (reference_scan t cursor as)) = drop cursor t"
proof (induction as arbitrary: cursor)
  case Nil
  show ?case by (simp add: substring_def)
next
  case (Cons a as)
  from Cons.prems have le: "cursor \<le> startOffset a" "startOffset a \<le> endOffset a"
    and rest: "chained (endOffset a) as" by simp_all
  have tail: "concat (map segment_text (reference_scan t (endOffset a) as))
              = drop (endOffset a) t"
    using rest by (rule Cons.IH)
  have "concat (map segment_text (reference_scan t cursor (a # as)))
        = substring t cursor (startOffset a)
          @ substring t (startOffset a) (endOffset a) @ drop (endOffset a) t"
    using le tail by (auto simp: substring_def)
  also have "\<dots> = drop cursor t"
    using le by (simp add: substring_append_drop)
  finally show ?case .
qed

section \<open>Non-overlapping annotation lists\<close>

lemma non_overlapping_Cons:
  assumes "non_overlapping (a # as)"
  shows "(\<forall>b \<in> set as. \<not> ranges_intersect a b) \<and> non_overlapping as"
proof (intro conjI ballI)
  from assms
  have h: "\<forall>x \<in> set (a # as). \<forall>y \<in> set (remove1 x (a # as)). \<not> ranges_intersect x y"
    by (simp add: non_overlapping_def list_all_iff)
  then show "\<not> ranges_intersect a b" if "b \<in> set as" for b
    using that by force
  have "\<not> ranges_intersect x y" if x: "x \<in> set as" and y: "y \<in> set (remove1 x as)" for x y
  proof -
    have "y \<in> set (remove1 x (a # as))"
    proof (cases "x = a")
      case True
      with y show ?thesis using set_remove1_subset [of x as] by auto
    next
      case False
      with y show ?thesis by simp
    qed
    with h x show ?thesis by auto
  qed
  then show "non_overlapping as"
    by (simp add: non_overlapping_def list_all_iff)
qed

lemma non_overlapping_mset:
  assumes "mset xs = mset ys"
  shows "non_overlapping xs = non_overlapping ys"
proof -
  have "set (remove1 a xs) = set (remove1 a ys)" for a
  proof -
    have "mset (remove1 a xs) = mset (remove1 a ys)" using assms by simp
    then show ?thesis by (rule mset_eq_setD)
  qed
  moreover have "set xs = set ys" using assms by (rule mset_eq_setD)
  ultimately show ?thesis by (simp add: non_overlapping_def list_all_iff)
qed

lemma sorted_disjoint_chained:
  assumes "sorted (map startOffset as)" "non_overlapping as"
    "\<forall>a \<in> set as. startOffset a < endOffset a" "\<forall>a \<in> set as. cursor \<le> startOffset a"
  shows "chained cursor as"
  using assms
proof (induction as arbitrary: cursor)
  case Nil
  show ?case by simp
next
  case (Cons a as)
  from Cons.prems(2) have dis: "\<forall>b \<in> set as. \<not> ranges_intersect a b"
    and no: "non_overlapping as"
    using non_overlapping_Cons by blast+
  have "\<forall>b \<in> set as. endOffset a \<le> startOffset b"
  proof
    fix b assume b: "b \<in> set as"
    with Cons.prems(1) have "startOffset a \<le> startOffset b" by auto
    moreover from b Cons.prems(3) have "startOffset b < endOffset b" by simp
    moreover from b dis have "\<not> ranges_intersect a b" by simp
    ultimately show "endOffset a \<le> startOffset b"
      by (simp add: ranges_intersect_def)
  qed
  moreover from Cons.prems(1) have "sorted (map startOffset as)" by simp
  moreover from Cons.prems(3) have "\<forall>b \<in> set as. startOffset b < endOffset b" by simp
  ultimately have "chained (endOffset a) as" using no by (intro Cons.IH) auto
  with Cons.prems(3,4) show ?case by (simp add: less_imp_le)
qed

lemma valid_annotations_sorted_chained:
  assumes "valid_annotations t cs"
  shows "chained 0 (js_sort compare_ascending cs)"
proof -
  let ?s = "sort_key startOffset cs"
  have m: "mset ?s = mset cs" by simp
  from assms have "non_overlapping cs" by (simp add: valid_annotations_def)
  then have "non_overlapping ?s" using non_overlapping_mset [OF m] by simp
  moreover have "sorted (map startOffset ?s)" by simp
  moreover from assms have "\<forall>a \<in> set ?s. startOffset a < endOffset a"
    by (simp add: valid_annotations_def list_all_iff range_in_bounds_def)
  ultimately have "chained 0 ?s" by (intro sorted_disjoint_chained) auto
  then show ?thesis by (simp add: js_sort_ascending)
qed

text \<open>
  Round trip for the renderer of part_000: for in-bounds, non-overlapping comments in any
  order, the texts of the segments concatenate to the source text.
\<close>

lemma renderTextWithHighlights_roundtrip:
  assumes "valid_annotations t cs"
  shows "concat (map segment_text (segments_of (renderTextWithHighlights t cs))) = t"
  using valid_annotations_sorted_chained [OF assms]
  by (simp add: renderTextWithHighlights_segments reference_render_def reference_scan_concat)

lemma non_overlapping_distinct_starts:
  assumes "non_overlapping as" "\<forall>a \<in> set as. startOffset a < endOffset a"
  shows "distinct (map startOffset as)"
  using assms
proof (induction as)
  case Nil
  show ?case by simp
next
  case (Cons a as)
  from Cons.prems(1) have dis: "\<forall>b \<in> set as. \<not> ranges_intersect a b"
    and no: "non_overlapping as"
    using non_overlapping_Cons by blast+
  have "startOffset a \<noteq> startOffset b" if "b \<in> set as" for b
    using that dis Cons.prems(2) by (fastforce simp: ranges_intersect_def)
  moreover have "distinct (map startOffset as)" using no Cons.prems(2) by (intro Cons.IH) auto
  ultimately show ?case by auto
qed


section \<open>Sorting, in both directions\<close>

lemma mset_insert_by: "mset (insert_by cmp x ys) = add_mset x (mset ys)"
  by (induction ys) simp_all

lemma mset_js_sort: "mset (js_sort cmp xs) = mset xs"
  by (induction xs) (simp_all add: js_sort_def mset_insert_by)

lemma set_insert_by: "set (insert_by cmp x ys) = insert x (set ys)"
  by (induction ys) auto

lemma set_js_sort: "set (js_sort cmp xs) = set xs"
  by (metis mset_js_sort set_mset_mset)

lemma descending_insert_by:
  assumes "sorted_wrt (\<lambda>a b. startOffset b \<le> startOffset a) ys"
  shows "sorted_wrt (\<lambda>a b. startOffset b \<le> startOffset a) (insert_by compare_descending x ys)"
  using assms
  by (induction ys) (auto simp: compare_descending_def set_insert_by)

lemma descending_js_sort:
  "sorted_wrt (\<lambda>a b. startOffset b \<le> startOffset a) (js_sort compare_descending xs)"
proof (induction xs)
  case Nil
  show ?case by (simp add: js_sort_def)
next
  case (Cons x xs)
  then show ?case
    using descending_insert_by [of "js_sort compare_descending xs" x]
    by (simp add: js_sort_def)
qed

lemma js_sort_descending_sorted:
  "sorted (rev (map startOffset (js_sort compare_descending xs)))"
proof -
  have "sorted_wrt (\<lambda>a b. b \<le> a) (map startOffset (js_sort compare_descending xs))"
    using descending_js_sort [of xs] by (simp add: sorted_wrt_map)
  then show ?thesis by (simp add: sorted_wrt_rev)
qed

lemma js_sort_descending_unique:
  assumes "mset xs = mset ys" "distinct (map startOffset xs)"
  shows "js_sort compare_descending xs = js_sort compare_descending ys"
proof -
  let ?x = "js_sort compare_descending xs" and ?y = "js_sort compare_descending ys"
  have sx: "set ?x = set xs" and sy: "set ?y = set ys"
    by (simp_all add: set_js_sort)
  have sxy: "set xs = set ys" using assms(1) by (rule mset_eq_setD)
  have dx: "distinct (map startOffset ?x)"
    using assms(2) mset_js_sort [of compare_descending xs]
    by (metis mset_eq_imp_distinct_iff mset_map)
  have dy: "distinct (map startOffset ?y)"
    using assms mset_js_sort [of compare_descending ys]
    by (metis mset_eq_imp_distinct_iff mset_map)
  have "rev (map startOffset ?x) = rev (map startOffset ?y)"
  proof (rule sorted_distinct_set_unique)
    show "sorted (rev (map startOffset ?x))" "sorted (rev (map startOffset ?y))"
      by (rule js_sort_descending_sorted)+
    show "distinct (rev (map startOffset ?x))" "distinct (rev (map startOffset ?y))"
      using dx dy by simp_all
    show "set (rev (map startOffset ?x)) = set (rev (map startOffset ?y))"
      using sx sy sxy by simp
  qed
  then have "map startOffset ?x = map startOffset ?y" by simp
  moreover have "inj_on startOffset (set ?x \<union> set ?y)"
    using sx sy sxy assms(2) by (simp add: distinct_map)
  ultimately show ?thesis by (rule map_inj_on)
qed

section \<open>What the renderer of part_000 reads of a comment\<close>





section \<open>Selection capture\<close>

lemma js_trim_whitespace_only:
  "\<forall>c \<in> set s. is_js_whitespace c \<Longrightarrow> js_trim s = []"
  by (auto simp: js_trim_def dest: set_dropWhileD)

text \<open>
  C10. In part_000, a selection whose text consists of whitespace only is treated as empty:
  the text is trimmed before the test, so no candidate is stored (\<open>selectedRange\<close> keeps the
  value it had), no exception is raised, and the comment box is closed.
\<close>

theorem handleSelection_whitespace_only:
  assumes "\<forall>c \<in> set (sel_toString selection). is_js_whitespace c"
  shows "handleSelection st selection = Inr (st\<lparr>showCommentBox := False\<rparr>)"
  using assms by (simp add: handleSelection_def js_trim_whitespace_only)

theorem handleSelection_whitespace_only_witness:
  "is_js_whitespace 0x20 \<and> is_js_whitespace 0x0A \<and> is_js_whitespace 0x3000
   \<and> handleSelection (initial_view_state\<lparr>showCommentBox := True\<rparr>)
         \<lparr>sel_toString = [0x20, 0x0A, 0x3000], sel_range = None\<rparr>
       = Inr (initial_view_state\<lparr>showCommentBox := False\<rparr>)"
  using handleSelection_whitespace_only
          [of "\<lparr>sel_toString = [0x20, 0x0A, 0x3000], sel_range = None\<rparr>"
              "initial_view_state\<lparr>showCommentBox := True\<rparr>"]
  by (simp add: is_js_whitespace_def)

text \<open>
  C8. An empty or collapsed selection (the browser reports the empty string for it) yields
  no candidate and no exception in either component. In part_000 the handler only closes the
  comment box and leaves \<open>selectedRange\<close> as it was; in the older component the state does
  not change at all, so no popover is opened.
\<close>

theorem empty_selection_no_candidate:
  assumes "sel_toString selection = []"
  shows "handleSelection st selection = Inr (st\<lparr>showCommentBox := False\<rparr>)
         \<and> handleTextSelection lst selection containerRect = Inr lst"
  using assms by (simp add: handleSelection_def handleTextSelection_def js_trim_def)

theorem empty_selection_no_candidate_witness:
  "handleSelection (initial_view_state\<lparr>selectedRange := Some ick_br\<rparr>) collapsed_selection
     = Inr (initial_view_state\<lparr>selectedRange := Some ick_br, showCommentBox := False\<rparr>)
   \<and> handleTextSelection initial_legacy_state collapsed_selection (Some origin_rect)
     = Inr initial_legacy_state"
  using empty_selection_no_candidate
          [where selection = collapsed_selection
             and st = "initial_view_state\<lparr>selectedRange := Some ick_br\<rparr>"
             and lst = initial_legacy_state and containerRect = "Some origin_rect"]
  by (simp add: collapsed_selection_def)

text \<open>
  C1. The claim asks for absolute offsets: with the annotation \<open>[2,5)\<close> of ``abcdefghij''
  rendered, the selection of ``fgh'' should be captured as \<open>[5,8)\<close>. Both handlers store
  \<^verbatim>\<open>range.startOffset\<close> and \<^verbatim>\<open>range.endOffset\<close>, which count inside the text node that
  holds the boundary. In part_000 the view has the text nodes ``ab'', ``cde'', ``fghij''; the
  selection lies in the third, its absolute offsets are 5 and 8, and the handler stores 0
  and 3. The older component renders the tooltip text as a fourth node before ``fghij'' and
  stores 0 and 3 as well.
\<close>

theorem selection_offsets_are_leaf_local:
  "text_nodes (renderTextWithHighlights abcdefghij [cde])
     = [utf16 ''ab'', utf16 ''cde'', utf16 ''fghij'']
   \<and> selected_text [utf16 ''ab'', utf16 ''cde'', utf16 ''fghij''] (fgh_range 2) = utf16 ''fgh''
   \<and> absolute_offset [utf16 ''ab'', utf16 ''cde'', utf16 ''fghij''] 2 0 = 5
   \<and> absolute_offset [utf16 ''ab'', utf16 ''cde'', utf16 ''fghij''] 2 3 = 8
   \<and> handleSelection (initial_view_state\<lparr>comments := [cde]\<rparr>) (fgh_selection 2)
       = Inr (initial_view_state
               \<lparr>comments := [cde],
                selectedRange :=
                  Some \<lparr>text' = utf16 ''fgh'', startOffset = 0, endOffset = 3\<rparr>,
                showCommentBox := True\<rparr>)
   \<and> renderTextWithComments abcdefghij [cde_saved]
       = Inr (LFragment (utf16 ''ab'') (utf16 ''cde'') (utf16 ''first'') (utf16 ''fghij''))
   \<and> selected_text
         (legacy_text_nodes
            (LFragment (utf16 ''ab'') (utf16 ''cde'') (utf16 ''first'') (utf16 ''fghij'')))
         (fgh_range 3) = utf16 ''fgh''
   \<and> handleTextSelection (initial_legacy_state\<lparr>legacy_comments := [cde_saved]\<rparr>)
         (fgh_selection 3) (Some origin_rect)
       = Inr (initial_legacy_state
               \<lparr>legacy_comments := [cde_saved],
                selectedText :=
                  Some \<lparr>text' = utf16 ''fgh'', startOffset = 0, endOffset = 3\<rparr>,
                popoverPosition := (0, 10),
                showCommentPopover := True\<rparr>)"
  by (simp add: scenario_defs render_defs handleSelection_def handleTextSelection_def
        js_trim_def is_js_whitespace_def selected_text_def absolute_offset_def substring_def)

text \<open>Neither handler reads the containers of the range.\<close>

lemma capture_ignores_containers:
  "handleSelection st
     (selection\<lparr>sel_range := Some (rng\<lparr>range_startContainer := i, range_endContainer := j\<rparr>)\<rparr>)
   = handleSelection st (selection\<lparr>sel_range := Some rng\<rparr>)"
  "handleTextSelection lst
     (selection\<lparr>sel_range := Some (rng\<lparr>range_startContainer := i, range_endContainer := j\<rparr>)\<rparr>)
     containerRect
   = handleTextSelection lst (selection\<lparr>sel_range := Some rng\<rparr>) containerRect"
  by (simp_all add: handleSelection_def handleTextSelection_def Let_def split: option.splits)

text \<open>
  What the stored offsets lead to: once the comment on ``fgh'' is saved, the renderer, which
  slices the source text at the stored offsets, highlights ``abc''.
\<close>

lemma leaf_local_offsets_highlight_other_text:
  "segments_of
     (renderTextWithHighlights abcdefghij
        (comments (handleCommentSubmit
           (initial_view_state
              \<lparr>comments := [cde],
               selectedRange :=
                 Some \<lparr>text' = utf16 ''fgh'', startOffset = 0, endOffset = 3\<rparr>,
               showCommentBox := True\<rparr>)
           (utf16 ''second'') (success_reply 2) (utf16 ''2025-01-01T00:00:01.000Z''))))
   = [Highlighted (utf16 ''abc'') 2, Highlighted (utf16 ''cde'') 1, Plain (utf16 ''fghij'')]"
  by (simp add: scenario_defs render_defs handleCommentSubmit_def submit_try_def)

section \<open>Rendering\<close>

text \<open>
  Scenario A of the specification, in both components. The older one puts the comment text
  into the highlighted span, as tooltip, and no id.
\<close>

lemma scenario_A:
  "segments_of (renderTextWithHighlights fox [quick])
     = [Plain (utf16 ''The ''), Highlighted (utf16 ''quick'') 1, Plain (utf16 '' brown fox'')]"
  "renderTextWithComments fox [quick_saved]
     = Inr (LFragment (utf16 ''The '') (utf16 ''quick'') (utf16 ''adj'') (utf16 '' brown fox''))"
  by (simp_all add: scenario_defs render_defs)

text \<open>
  C2. For a list sorted by \<open>startOffset\<close> the renderer of part_000 produces exactly the
  reference scan (\<open>renderTextWithHighlights_refines_reference\<close>). The renderer of the older
  component does not: on scenario C of the specification, two sorted, non-overlapping
  annotations of the fox sentence, for which the reference scan gives five segments, its
  second iteration calls \<^verbatim>\<open>slice\<close> on a React element and throws.
\<close>

theorem renderTextWithComments_throws_on_second_comment:
  "sorted (map startOffset [quick_saved, brown_saved])
   \<and> non_overlapping [quick_saved, brown_saved]
   \<and> reference_render fox [quick_saved, brown_saved]
       = [Plain (utf16 ''The ''), Highlighted (utf16 ''quick'') 1, Plain (utf16 '' ''),
          Highlighted (utf16 ''brown'') 2, Plain (utf16 '' fox'')]
   \<and> segments_of (renderTextWithHighlights fox [quick, brown])
       = [Plain (utf16 ''The ''), Highlighted (utf16 ''quick'') 1, Plain (utf16 '' ''),
          Highlighted (utf16 ''brown'') 2, Plain (utf16 '' fox'')]
   \<and> renderTextWithComments fox [quick_saved, brown_saved] = Inl TypeError
   \<and> renderTextWithComments fox [brown_saved, quick_saved] = Inl TypeError"
  by (simp add: scenario_defs render_defs non_overlapping_def ranges_intersect_def
        reference_render_def substring_def)

text \<open>
  C3. The round trip holds for the renderer of part_000
  (\<open>renderTextWithHighlights_roundtrip\<close>). The renderer of the older component has no
  output to concatenate as soon as the valid annotation set has two members: for the
  touching annotations \<open>[2,5)\<close> and \<open>[5,8)\<close> of ``abcdefghij'' it throws.
\<close>

theorem renderTextWithComments_no_round_trip:
  "valid_annotations abcdefghij [cde_saved, fgh_saved]
   \<and> renderTextWithComments abcdefghij [cde_saved, fgh_saved] = Inl TypeError
   \<and> renderTextWithComments abcdefghij [fgh_saved, cde_saved] = Inl TypeError"
  by (simp add: scenario_defs render_defs valid_annotations_def non_overlapping_def
        ranges_intersect_def range_in_bounds_def)

lemma valid_annotations_distinct_starts:
  assumes "valid_annotations t as"
  shows "distinct (map startOffset as)"
  using assms
  by (intro non_overlapping_distinct_starts)
     (simp_all add: valid_annotations_def list_all_iff range_in_bounds_def)










section \<open>Adding a comment\<close>

lemma comments_handleCommentSubmit:
  "comments (handleCommentSubmit st c result now)
   = (case submit_try st c result now of Inl e \<Rightarrow> comments st | Inr st' \<Rightarrow> comments st')"
  by (simp add: handleCommentSubmit_def Let_def split: sum.splits)

text \<open>How the candidate ``own'' comes about while ``quick'' is annotated.\<close>

lemma own_range_is_captured:
  "text_nodes (renderTextWithHighlights fox [quick])
     = [utf16 ''The '', utf16 ''quick'', utf16 '' brown fox'']"
  "handleSelection (initial_view_state\<lparr>comments := [quick]\<rparr>) (own_selection 2)
     = Inr (initial_view_state\<lparr>comments := [quick], selectedRange := Some own_range,
                               showCommentBox := True\<rparr>)"
  "handleTextSelection (initial_legacy_state\<lparr>legacy_comments := [quick_saved]\<rparr>)
     (own_selection 3) (Some origin_rect)
     = Inr (initial_legacy_state\<lparr>legacy_comments := [quick_saved],
                                 selectedText := Some own_range,
                                 popoverPosition := (0, 10),
                                 showCommentPopover := True\<rparr>)"
  by (simp_all add: scenario_defs render_defs handleSelection_def handleTextSelection_def
        js_trim_def is_js_whitespace_def)

text \<open>
  C4, as stated, fails: neither component checks a candidate against the committed
  annotations. Scenario B of the specification: with the annotation \<open>[4,9)\<close> committed, the
  intersecting candidate \<open>[6,12)\<close> is appended, in part_000 when the server reports
  success, in the older component always.
\<close>

theorem overlapping_add_is_committed:
  "ranges_intersect quick ick_br
   \<and> comments (handleCommentSubmit
                 (initial_view_state\<lparr>comments := [quick], selectedRange := Some ick_br,
                                      showCommentBox := True\<rparr>)
                 (utf16 ''noun'') (success_reply 2) (utf16 ''2025-01-01T00:00:02.000Z''))
       = [quick,
          \<lparr>text' = utf16 ''ick br'', startOffset = 6, endOffset = 12,
           comment = utf16 ''noun'', id' = 2,
           created_at = utf16 ''2025-01-01T00:00:02.000Z''\<rparr>]
   \<and> legacy_comments (handleSaveComment
                 (initial_legacy_state\<lparr>legacy_comments := [quick_saved],
                                        selectedText := Some ick_br\<rparr>)
                 (utf16 ''noun'') 2)
       = [quick_saved,
          \<lparr>text' = utf16 ''ick br'', startOffset = 6, endOffset = 12,
           comment = utf16 ''noun'', id' = 2\<rparr>]"
  by (simp add: scenario_defs ranges_intersect_def handleCommentSubmit_def submit_try_def
        handleSaveComment_def Let_def)

text \<open>
  C4, amended. Whatever the committed annotations and the candidate's range are, an add
  that succeeds (part_000: the POST is answered ok with \<^verbatim>\<open>success\<close> and a comment id; older
  component: a selection is pending) appends the candidate, with its range as captured, to
  the end of the comments; and no add, whatever its outcome, changes or removes a committed
  annotation.
\<close>

theorem add_has_no_overlap_check:
  assumes "selectedRange st = Some sel" and "selectedText lst = Some sel"
  shows "comments (handleCommentSubmit st commentText (success_reply i) now)
         = comments st @ [\<lparr>text' = text' sel, startOffset = startOffset sel,
                            endOffset = endOffset sel, comment = commentText, id' = i,
                            created_at = now\<rparr>]
       \<and> legacy_comments (handleSaveComment lst commentText n)
         = legacy_comments lst @ [\<lparr>text' = text' sel, startOffset = startOffset sel,
                                   endOffset = endOffset sel, comment = commentText,
                                   id' = n\<rparr>]
       \<and> take (length (comments st))
            (comments (handleCommentSubmit st commentText result now)) = comments st
       \<and> take (length (legacy_comments lst))
            (legacy_comments (handleSaveComment lst commentText n)) = legacy_comments lst"
  using assms
  by (auto simp: comments_handleCommentSubmit submit_try_def success_reply_def
        handleSaveComment_def Let_def split: fetch_result.splits option.splits)

theorem add_has_no_overlap_check_witness:
  "ranges_intersect quick own_range
   \<and> comments (handleCommentSubmit
               (initial_view_state\<lparr>comments := [quick], selectedRange := Some own_range,
                                    showCommentBox := True\<rparr>)
               (utf16 ''noun'') (success_reply 2) (utf16 ''2025''))
     = [quick] @ [\<lparr>text' = utf16 ''own'', startOffset = 3, endOffset = 6,
                    comment = utf16 ''noun'', id' = 2, created_at = utf16 ''2025''\<rparr>]
   \<and> legacy_comments (handleSaveComment
               (initial_legacy_state\<lparr>legacy_comments := [quick_saved],
                                      selectedText := Some own_range\<rparr>) (utf16 ''noun'') 7)
     = [quick_saved] @ [\<lparr>text' = utf16 ''own'', startOffset = 3, endOffset = 6,
                          comment = utf16 ''noun'', id' = 7\<rparr>]
   \<and> take 1 (comments (handleCommentSubmit
               (initial_view_state\<lparr>comments := [quick], selectedRange := Some own_range,
                                    showCommentBox := True\<rparr>)
               (utf16 ''noun'') refusal_reply (utf16 ''2025''))) = [quick]"
  using add_has_no_overlap_check
          [where st = "initial_view_state\<lparr>comments := [quick], selectedRange := Some own_range,
                                           showCommentBox := True\<rparr>"
             and sel = own_range
             and lst = "initial_legacy_state\<lparr>legacy_comments := [quick_saved],
                                             selectedText := Some own_range\<rparr>"
             and commentText = "utf16 ''noun''" and i = 2 and now = "utf16 ''2025''"
             and n = 7 and result = refusal_reply]
  by (simp add: initial_view_state_def initial_legacy_state_def own_range_def quick_def
        ranges_intersect_def)

text \<open>How the empty range comes about while ``quick'' is annotated.\<close>

lemma invalid_ranges_are_captured:
  "handleSelection (initial_view_state\<lparr>comments := [quick]\<rparr>) (empty_range_selection 2)
     = Inr (initial_view_state\<lparr>comments := [quick], selectedRange := Some empty_range,
                               showCommentBox := True\<rparr>)"
  "handleTextSelection (initial_legacy_state\<lparr>legacy_comments := [quick_saved]\<rparr>)
     (empty_range_selection 3) (Some origin_rect)
     = Inr (initial_legacy_state\<lparr>legacy_comments := [quick_saved],
                                 selectedText := Some empty_range,
                                 popoverPosition := (0, 10),
                                 showCommentPopover := True\<rparr>)"
  "selected_text (text_nodes (renderTextWithHighlights fox [quick]))
     (the (sel_range (empty_range_selection 2))) = utf16 ''ick b''"
  by (simp_all add: scenario_defs render_defs handleSelection_def handleTextSelection_def
        js_trim_def is_js_whitespace_def selected_text_def absolute_offset_def substring_def)

text \<open>
  C5, as stated, fails: nothing validates a range. A candidate with
  \<open>startOffset = endOffset\<close> and one that starts at the length of the text are both
  committed.
\<close>

theorem invalid_ranges_are_committed:
  "\<not> range_in_bounds fox empty_range \<and> startOffset empty_range = endOffset empty_range
   \<and> \<not> range_in_bounds fox beyond_range \<and> startOffset beyond_range = length fox
   \<and> comments (handleCommentSubmit
                 (initial_view_state\<lparr>comments := [quick], selectedRange := Some empty_range,
                                      showCommentBox := True\<rparr>)
                 (utf16 ''why'') (success_reply 2) (utf16 ''2025''))
       = [quick,
          \<lparr>text' = utf16 ''ick b'', startOffset = 2, endOffset = 2, comment = utf16 ''why'',
           id' = 2, created_at = utf16 ''2025''\<rparr>]
   \<and> comments (handleCommentSubmit
                 (initial_view_state\<lparr>selectedRange := Some beyond_range,
                                      showCommentBox := True\<rparr>)
                 (utf16 ''why'') (success_reply 1) (utf16 ''2025''))
       = [\<lparr>text' = utf16 ''Score'', startOffset = 19, endOffset = 5, comment = utf16 ''why'',
           id' = 1, created_at = utf16 ''2025''\<rparr>]
   \<and> legacy_comments (handleSaveComment
                 (initial_legacy_state\<lparr>legacy_comments := [quick_saved],
                                        selectedText := Some empty_range\<rparr>) (utf16 ''why'') 2)
       = [quick_saved,
          \<lparr>text' = utf16 ''ick b'', startOffset = 2, endOffset = 2, comment = utf16 ''why'',
           id' = 2\<rparr>]"
  by (simp add: scenario_defs range_in_bounds_def handleCommentSubmit_def submit_try_def
        handleSaveComment_def Let_def)

text \<open>
  C5, amended. From capture to commit the offsets are never examined. In part_000, for every
  selection with a range whose text is not blank, and in the older component, for every
  selection with a range whose text is not empty (blank text included), capture succeeds
  and a successful add then commits a comment whose \<open>startOffset\<close> and \<open>endOffset\<close> are the two
  offsets of the DOM range as they are, whether or not they satisfy
  \<open>startOffset < endOffset \<le> length SourceText\<close>.
\<close>

theorem captured_range_is_committed_unchecked:
  assumes "sel_range selection = Some rng" and "js_trim (sel_toString selection) \<noteq> []"
    and "sel_range older_selection = Some older_rng" and "sel_toString older_selection \<noteq> []"
  shows "\<exists>st1 lst1.
           handleSelection st selection = Inr st1
         \<and> comments (handleCommentSubmit st1 commentText (success_reply i) now)
           = comments st @ [\<lparr>text' = js_trim (sel_toString selection),
                              startOffset = range_startOffset rng,
                              endOffset = range_endOffset rng,
                              comment = commentText, id' = i, created_at = now\<rparr>]
         \<and> handleTextSelection lst older_selection (Some containerRect) = Inr lst1
         \<and> legacy_comments (handleSaveComment lst1 commentText n)
           = legacy_comments lst @ [\<lparr>text' = sel_toString older_selection,
                                     startOffset = range_startOffset older_rng,
                                     endOffset = range_endOffset older_rng,
                                     comment = commentText, id' = n\<rparr>]"
  using assms
  by (simp add: handleSelection_def handleTextSelection_def comments_handleCommentSubmit
        submit_try_def success_reply_def handleSaveComment_def Let_def)

theorem captured_range_is_committed_unchecked_witness:
  "selected_text (text_nodes (renderTextWithHighlights fox [quick])) straddling_range
     = utf16 '' qu''
   \<and> js_trim (sel_toString blank_selection) = []
   \<and> (\<exists>st1 lst1.
         handleSelection (initial_view_state\<lparr>comments := [quick]\<rparr>) straddling_selection
           = Inr st1
       \<and> comments (handleCommentSubmit st1 (utf16 ''why'') (success_reply 2) (utf16 ''2025''))
           = [quick,
              \<lparr>text' = utf16 ''qu'', startOffset = 3, endOffset = 2, comment = utf16 ''why'',
               id' = 2, created_at = utf16 ''2025''\<rparr>]
       \<and> handleTextSelection (initial_legacy_state\<lparr>legacy_comments := [quick_saved]\<rparr>)
           blank_selection (Some origin_rect) = Inr lst1
       \<and> legacy_comments (handleSaveComment lst1 (utf16 ''why'') 2)
           = [quick_saved,
              \<lparr>text' = utf16 '' '', startOffset = 3, endOffset = 0, comment = utf16 ''why'',
               id' = 2\<rparr>])"
proof -
  have nodes: "selected_text (text_nodes (renderTextWithHighlights fox [quick]))
                 straddling_range = utf16 '' qu''"
    by (simp add: scenario_defs render_defs selected_text_def absolute_offset_def
          substring_def)
  have blank: "js_trim (utf16 '' '') = []"
    by (simp add: utf16_def js_trim_def is_js_whitespace_def)
  have trimmed: "js_trim (utf16 '' qu'') = utf16 ''qu''"
    by (simp add: utf16_def js_trim_def is_js_whitespace_def)
  have rng: "sel_range straddling_selection = Some straddling_range"
    by (simp add: straddling_selection_def)
  have text_of: "sel_toString straddling_selection = utf16 '' qu''"
    by (simp add: straddling_selection_def)
  have offsets: "range_startOffset straddling_range = 3" "range_endOffset straddling_range = 2"
    "range_startOffset blank_range = 3" "range_endOffset blank_range = 0"
    by (simp_all add: straddling_range_def blank_range_def)
  have "utf16 ''qu'' \<noteq> []"
    by (simp add: utf16_def)
  then have nonblank: "js_trim (sel_toString straddling_selection) \<noteq> []"
    by (simp add: text_of trimmed)
  have older: "sel_range blank_selection = Some blank_range"
    "sel_toString blank_selection = utf16 '' ''"
    by (simp_all add: blank_selection_def)
  have nonempty: "sel_toString blank_selection \<noteq> []"
    by (simp add: older utf16_def)
  from captured_range_is_committed_unchecked
         [OF rng nonblank older(1) nonempty,
          where st = "initial_view_state\<lparr>comments := [quick]\<rparr>"
            and lst = "initial_legacy_state\<lparr>legacy_comments := [quick_saved]\<rparr>"
            and commentText = "utf16 ''why''" and i = 2
            and now = "utf16 ''2025''" and n = 2 and containerRect = origin_rect]
  show ?thesis
    by (simp add: nodes blank trimmed text_of offsets older initial_view_state_def
          initial_legacy_state_def)
qed






text \<open>
  The typed text does not survive a close of the box: when an empty selection closes it and
  a new selection opens it again, the box is empty.
\<close>

lemma typed_text_is_lost_on_close:
  assumes "sel_toString selection = []" and "handleSelection st selection = Inr st1"
  shows "remount st1 (Some typed) = None"
  using assms by (auto simp: handleSelection_def remount_def js_trim_def)

lemma reopened_box_is_empty:
  assumes "js_trim (sel_toString selection) \<noteq> []" and "handleSelection st selection = Inr st1"
  shows "remount st1 None = Some []"
  using assms
  by (auto simp: handleSelection_def remount_def Let_def split: option.splits)




text \<open>The outcomes on which the \<^verbatim>\<open>try\<close> block throws although a selection is pending.\<close>

lemma submit_try_throws:
  assumes "selectedRange st = Some sel"
  shows "submit_try st c Rejected now = Inl Rejection"
    and "submit_try st c (Response False data) now
         = Inl (Error (error_or_default (data_error data)))"
    and "data_success data \<Longrightarrow> data_comment_id data = None \<Longrightarrow>
         submit_try st c (Response True data) now = Inl TypeError"
  using assms by (simp_all add: submit_try_def)

end
